theory Spec2Isabelle
  imports Main
begin

section \<open>The work queue store\<close>

text \<open>
  The repository holds two versions of the bot manager. In \<^verbatim>\<open>src/unnamed/part_000\<close> the
  pending documents carry the session data, and the subscription is checked before a
  connection is created; its functions carry the suffix \<open>A\<close> here. In
  \<^verbatim>\<open>src/unnamed/part_001\<close> the pending documents carry a session identifier, and the
  subscription is checked once the connection has opened; its functions carry the suffix
  \<open>B\<close>. Functions that are the same in both have one definition.

  The four MongoDB collections of \<^verbatim>\<open>COLLECTIONS\<close>, each as the list of its documents in
  store order. Only the fields the session lifecycle reads or writes are kept; timestamps
  and the constant \<^verbatim>\<open>status\<close> field are left out.
\<close>

text \<open>A JSON value where the code expects a string and a request may bring something
  else: a string or a number. Any other value that is not a string behaves like a number,
  non-zero when it is truthy.\<close>

datatype jvalue = JStr string | JNum int

text \<open>The \<^verbatim>\<open>_id\<close> of a stored document: the \<^verbatim>\<open>ObjectId\<close> the driver generates, by its
  hexadecimal form, or a string that came with the document.\<close>

datatype doc_key = ObjectId string | StringId string

text \<open>\<^verbatim>\<open>_id.toString()\<close>\<close>

fun key_string :: "doc_key \<Rightarrow> string" where
  "key_string (ObjectId h) = h"
| "key_string (StringId s) = s"

text \<open>\<^verbatim>\<open>processedHistoryMessages\<close> as \<^verbatim>\<open>extractRemoteJidFromSession\<close> reads it:
  missing or empty; a first element that is \<^verbatim>\<open>null\<close>, whose \<^verbatim>\<open>key\<close> cannot be read; or a
  first element with its \<^verbatim>\<open>key.remoteJid\<close>, \<open>None\<close> where that path is missing.\<close>

datatype history = NoHistory | NullFirst | First "string option"

text \<open>A document of \<^verbatim>\<open>wasessions\<close>; \<open>me_id\<close> is \<^verbatim>\<open>me.id\<close>. The \<^verbatim>\<open>sessionId\<close> and a
  \<^verbatim>\<open>remoteJid\<close> found in the history are taken to be strings, as the endpoints and the
  connection library write them.\<close>

record session_doc =
  doc_id :: doc_key
  sessionId :: string
  phoneNumber :: "jvalue option"
  hist :: history
  me_id :: "jvalue option"

text \<open>A document of \<^verbatim>\<open>wavalidjid\<close>. One server writes and queries the field
  \<^verbatim>\<open>Jid\<close>, the other the field \<^verbatim>\<open>jid\<close>.\<close>

record valid_doc =
  Jid_field :: "string option"
  jid_field :: "string option"

record expired_doc =
  ex_phoneNumber :: string
  ex_reason :: string

record running_doc =
  rb_jid :: string
  rb_sessionId :: string

text \<open>
  The process state: the store, the in-memory \<^verbatim>\<open>activeBots\<close> map and the sockets whose
  \<^verbatim>\<open>connection.update\<close> handler is registered. A socket is identified by the variables its
  handler closes over (type \<open>'c\<close>). \<open>faults\<close> scripts the coming driver calls: the head
  says whether the next call throws, and an exhausted script means a healthy store.
  \<open>sessionId_index\<close> is the unique index on \<^verbatim>\<open>wasessions.sessionId\<close>, which only
  \<^verbatim>\<open>setup.js\<close> creates.
\<close>

record 'c state =
  pending :: "session_doc list"
  valid :: "valid_doc list"
  expired :: "expired_doc list"
  running :: "running_doc list"
  sessionId_index :: bool
  faults :: "bool list"
  activeBots :: "string \<rightharpoonup> 'c"
  socks :: "'c list"

definition MAX_BOTS :: nat where
  "MAX_BOTS = 15"

text \<open>One awaited driver call: whether it throws, and the state with the script advanced.\<close>

definition driver_call :: "'c state \<Rightarrow> bool \<times> 'c state" where
  "driver_call st =
     (case faults st of [] \<Rightarrow> (False, st) | f # fs \<Rightarrow> (f, st\<lparr>faults := fs\<rparr>))"

text \<open>\<^verbatim>\<open>deleteOne(query)\<close>: the first matching document goes, the others stay.\<close>

fun deleteOne :: "('a \<Rightarrow> bool) \<Rightarrow> 'a list \<Rightarrow> 'a list" where
  "deleteOne P [] = []"
| "deleteOne P (x # xs) = (if P x then xs else x # deleteOne P xs)"

text \<open>\<^verbatim>\<open>jid.split('@')[0]\<close>, for a string.\<close>

definition extractPhoneNumber :: "string \<Rightarrow> string" where
  "extractPhoneNumber j = takeWhile (\<lambda>c. c \<noteq> CHR ''@'') j"

text \<open>\<^verbatim>\<open>x || ''\<close> for an optional string.\<close>

definition or_empty :: "string option \<Rightarrow> string" where
  "or_empty x = (case x of None \<Rightarrow> [] | Some s \<Rightarrow> s)"

datatype exn = ProviderError | TypeError

text \<open>\<^verbatim>\<open>extractPhoneNumber(sessionData.phoneNumber || '')\<close> of the catch block. The stored
  \<^verbatim>\<open>phoneNumber\<close> is whatever the request held: a missing, empty or zero value gives way
  to \<^verbatim>\<open>''\<close>, a string is split, and any other value has no \<^verbatim>\<open>split\<close>, so the call
  throws.\<close>

definition declaredPhone :: "jvalue option \<Rightarrow> exn + string" where
  "declaredPhone v =
     (case v of
        None \<Rightarrow> Inr (extractPhoneNumber [])
      | Some (JStr s) \<Rightarrow> Inr (extractPhoneNumber s)
      | Some (JNum n) \<Rightarrow> (if n = 0 then Inr (extractPhoneNumber []) else Inl TypeError))"

text \<open>\<^verbatim>\<open>isJidSubscribed\<close>, once per server: the lookup is by \<^verbatim>\<open>Jid\<close> in the server
  that checks before connecting and by \<^verbatim>\<open>jid\<close> in the server that checks after the
  connection opened. A thrown query counts as not subscribed.\<close>

definition isJidSubscribedA :: "string \<Rightarrow> 'c state \<Rightarrow> bool \<times> 'c state" where
  "isJidSubscribedA j st =
     (let (thrown, st1) = driver_call st
      in if thrown then (False, st1) else (Some j \<in> Jid_field ` set (valid st1), st1))"

definition isJidSubscribedB :: "string \<Rightarrow> 'c state \<Rightarrow> bool \<times> 'c state" where
  "isJidSubscribedB j st =
     (let (thrown, st1) = driver_call st
      in if thrown then (False, st1) else (Some j \<in> jid_field ` set (valid st1), st1))"

definition addToExpiredJids :: "string \<Rightarrow> 'c state \<Rightarrow> 'c state" where
  "addToExpiredJids phone st =
     (let (thrown, st1) = driver_call st
      in if thrown then st1
         else st1\<lparr>expired := expired st1 @
                [\<lparr>ex_phoneNumber = phone, ex_reason = ''Invalid or expired session''\<rparr>]\<rparr>)"

text \<open>\<^verbatim>\<open>addToRunningBots\<close>. \<^verbatim>\<open>initMongoDB\<close> creates the unique index on
  \<^verbatim>\<open>runningbots.jid\<close> before anything else runs, so an insert of a jid that has a row throws
  a duplicate-key error, which the function logs and drops like any other.\<close>

definition addToRunningBots :: "string \<Rightarrow> string \<Rightarrow> 'c state \<Rightarrow> 'c state" where
  "addToRunningBots j sid st =
     (let (thrown, st1) = driver_call st
      in if thrown \<or> j \<in> rb_jid ` set (running st1) then st1
         else st1\<lparr>running := running st1 @ [\<lparr>rb_jid = j, rb_sessionId = sid\<rparr>]\<rparr>)"

text \<open>\<^verbatim>\<open>removeFromPendingSessions\<close> of the server that checks after the connection
  opened: by the field \<^verbatim>\<open>sessionId\<close>.\<close>

definition removeFromPendingSessionsB :: "string \<Rightarrow> 'c state \<Rightarrow> 'c state" where
  "removeFromPendingSessionsB sid st =
     (let (thrown, st1) = driver_call st
      in if thrown then st1
         else st1\<lparr>pending := deleteOne (\<lambda>d. sessionId d = sid) (pending st1)\<rparr>)"

text \<open>\<^verbatim>\<open>removeFromPendingSessions\<close> of the server that checks before connecting. The
  parameter \<open>oid\<close> is the driver's \<^verbatim>\<open>new ObjectId(sessionId)\<close>: the hexadecimal form of
  the id it builds, or \<open>None\<close> when it throws. When it builds one, the query is
  \<^verbatim>\<open>{ _id: ObjectId }\<close>, which a document matches only if its \<^verbatim>\<open>_id\<close> is that
  \<^verbatim>\<open>ObjectId\<close>; a string \<^verbatim>\<open>_id\<close> of the same characters does not match. When it throws,
  the query is by the field \<^verbatim>\<open>sessionId\<close>.\<close>

definition removeFromPendingSessionsA ::
  "(string \<Rightarrow> string option) \<Rightarrow> string \<Rightarrow> 'c state \<Rightarrow> 'c state" where
  "removeFromPendingSessionsA oid sid st =
     (let query = (case oid sid of
                     Some h \<Rightarrow> (\<lambda>d. doc_id d = ObjectId h)
                   | None \<Rightarrow> (\<lambda>d. sessionId d = sid));
          (thrown, st1) = driver_call st
      in if thrown then st1 else st1\<lparr>pending := deleteOne query (pending st1)\<rparr>)"

text \<open>\<^verbatim>\<open>getRunningBotsCount\<close>: the count, or 0 when the query throws.\<close>

definition getRunningBotsCount :: "'c state \<Rightarrow> nat \<times> 'c state" where
  "getRunningBotsCount st =
     (let (thrown, st1) = driver_call st
      in if thrown then (0, st1) else (length (running st1), st1))"

text \<open>The \<^verbatim>\<open>deleteOne({ jid: remoteJid })\<close> on \<^verbatim>\<open>runningbots\<close> in the close handler, with
  its own \<^verbatim>\<open>try\<close>/\<^verbatim>\<open>catch\<close>.\<close>

definition removeFromRunningBots :: "string \<Rightarrow> 'c state \<Rightarrow> 'c state" where
  "removeFromRunningBots j st =
     (let (thrown, st1) = driver_call st
      in if thrown then st1 else st1\<lparr>running := deleteOne (\<lambda>r. rb_jid r = j) (running st1)\<rparr>)"

section \<open>The connection provider\<close>

text \<open>
  A \<^verbatim>\<open>connection.update\<close> event as the handlers read it: \<open>ConnOpen u\<close> is
  \<^verbatim>\<open>connection === 'open'\<close> with \<^verbatim>\<open>sock.user.id = u\<close>; \<open>ConnClose lo u\<close> is
  \<^verbatim>\<open>connection === 'close'\<close>, \<open>lo\<close> saying whether the status code of
  \<^verbatim>\<open>lastDisconnect\<close> is \<^verbatim>\<open>DisconnectReason.loggedOut\<close> and \<open>u\<close> being
  \<^verbatim>\<open>sock.user?.id\<close>.
\<close>

datatype update = ConnOpen string | ConnClose bool "string option"

text \<open>An asynchronous function either returns or rejects; a rejection carries the exception
  and the state reached when it was thrown. \<open>state_of\<close> is the state either way.\<close>

definition state_of :: "exn \<times> 's + 's \<Rightarrow> 's" where
  "state_of r = (case r of Inl (e, s) \<Rightarrow> s | Inr s \<Rightarrow> s)"

section \<open>Session processing, authorization after the connection opened\<close>

text \<open>The handler that \<^verbatim>\<open>processSession\<close> registers; it closes over \<^verbatim>\<open>sessionId\<close>.
  \<^verbatim>\<open>sendMessage\<close> catches its own errors and touches no state.\<close>

fun onUpdateB :: "string \<Rightarrow> update \<Rightarrow> string state \<Rightarrow> string state" where
  "onUpdateB sid (ConnClose lo u) st =
     (let phone = extractPhoneNumber (or_empty u);
          st1 = (if lo \<and> phone \<noteq> [] then addToExpiredJids phone st else st);
          st2 = st1\<lparr>activeBots := (activeBots st1)(sid := None)\<rparr>
      in removeFromPendingSessionsB sid st2)"
| "onUpdateB sid (ConnOpen j) st =
     (let st1 = st\<lparr>activeBots := (activeBots st)(sid \<mapsto> sid)\<rparr>;
          (isSubscribed, st2) = isJidSubscribedB j st1;
          st3 = (if isSubscribed then addToRunningBots j sid st2
                 else st2\<lparr>activeBots := (activeBots st2)(sid := None)\<rparr>)
      in removeFromPendingSessionsB sid st3)"

text \<open>The \<^verbatim>\<open>try\<close> block of \<^verbatim>\<open>processSession\<close>. \<open>prov d\<close> says whether
  \<^verbatim>\<open>createWhatsAppBot\<close> returns a socket for the record; when it throws, the exception
  leaves the block with the state reached so far.\<close>

definition processSessionB_try ::
  "(session_doc \<Rightarrow> bool) \<Rightarrow> session_doc \<Rightarrow> string state \<Rightarrow> exn \<times> string state + string state" where
  "processSessionB_try prov d st =
     (let (runningCount, st1) = getRunningBotsCount st
      in if runningCount \<ge> MAX_BOTS then Inr st1
         else if prov d then Inr (st1\<lparr>socks := socks st1 @ [sessionId d]\<rparr>)
         else Inl (ProviderError, st1))"

text \<open>\<^verbatim>\<open>processSession\<close> with its catch block. The first statement of the catch block
  can throw itself; then nothing is written and the exception leaves
  \<^verbatim>\<open>processSession\<close>.\<close>

definition processSessionB ::
  "(session_doc \<Rightarrow> bool) \<Rightarrow> session_doc \<Rightarrow> string state \<Rightarrow> exn \<times> string state + string state" where
  "processSessionB prov d st =
     (case processSessionB_try prov d st of
        Inr st1 \<Rightarrow> Inr st1
      | Inl (e, st1) \<Rightarrow>
          (case declaredPhone (phoneNumber d) of
             Inl e' \<Rightarrow> Inl (e', st1)
           | Inr phone \<Rightarrow>
               Inr (removeFromPendingSessionsB (sessionId d)
                      (if phone \<noteq> [] then addToExpiredJids phone st1 else st1))))"

section \<open>Session processing, authorization before connecting\<close>

text \<open>\<^verbatim>\<open>extractRemoteJidFromSession\<close>. Reading \<^verbatim>\<open>key\<close> of a \<^verbatim>\<open>null\<close> first message
  throws, and so does \<^verbatim>\<open>split\<close> on a \<^verbatim>\<open>me.id\<close> that is not a string; the function
  catches both and returns \<^verbatim>\<open>null\<close>.\<close>

definition extractRemoteJidFromSession :: "session_doc \<Rightarrow> string option" where
  "extractRemoteJidFromSession d =
     (let fromMe =
            (case me_id d of
               Some (JStr s) \<Rightarrow>
                 (if s \<noteq> [] then Some (takeWhile (\<lambda>c. c \<noteq> CHR '':'') s @ ''@s.whatsapp.net'')
                  else None)
             | Some (JNum n) \<Rightarrow> None
             | None \<Rightarrow> None)
      in case hist d of
           NoHistory \<Rightarrow> fromMe
         | NullFirst \<Rightarrow> None
         | First r \<Rightarrow> (if or_empty r \<noteq> [] then r else fromMe))"

text \<open>The handler closes over \<^verbatim>\<open>sessionId\<close> and \<^verbatim>\<open>remoteJid\<close>; it never reads
  \<^verbatim>\<open>sock.user\<close>.\<close>

fun onUpdateA ::
  "(string \<Rightarrow> string option) \<Rightarrow> string \<times> string \<Rightarrow> update \<Rightarrow> (string \<times> string) state
     \<Rightarrow> (string \<times> string) state" where
  "onUpdateA oid (sid, remoteJid) (ConnClose lo u) st =
     (let phone = extractPhoneNumber remoteJid;
          st1 = (if lo \<and> phone \<noteq> [] then addToExpiredJids phone st else st);
          st2 = st1\<lparr>activeBots := (activeBots st1)(sid := None)\<rparr>;
          st3 = removeFromRunningBots remoteJid st2
      in removeFromPendingSessionsA oid sid st3)"
| "onUpdateA oid (sid, remoteJid) (ConnOpen u) st =
     (let st1 = st\<lparr>activeBots := (activeBots st)(sid \<mapsto> (sid, remoteJid))\<rparr>;
          st2 = addToRunningBots remoteJid sid st1
      in removeFromPendingSessionsA oid sid st2)"

text \<open>\<^verbatim>\<open>sessionData._id?.toString() || 'unknown'\<close>\<close>

definition sessionIdA :: "session_doc \<Rightarrow> string" where
  "sessionIdA d = (if key_string (doc_id d) = [] then ''unknown'' else key_string (doc_id d))"

definition processSessionA_try ::
  "(string \<Rightarrow> string option) \<Rightarrow> (session_doc \<Rightarrow> bool) \<Rightarrow> session_doc
     \<Rightarrow> (string \<times> string) state \<Rightarrow> exn \<times> (string \<times> string) state + (string \<times> string) state" where
  "processSessionA_try oid prov d st =
     (case extractRemoteJidFromSession d of
        None \<Rightarrow> Inr (removeFromPendingSessionsA oid (sessionIdA d) st)
      | Some remoteJid \<Rightarrow>
          (let (isSubscribed, st1) = isJidSubscribedA remoteJid st
           in if \<not> isSubscribed
              then Inr (removeFromPendingSessionsA oid (sessionIdA d)
                          (addToExpiredJids (extractPhoneNumber remoteJid) st1))
              else (let (runningCount, st2) = getRunningBotsCount st1
                    in if runningCount \<ge> MAX_BOTS then Inr st2
                       else if prov d
                       then Inr (st2\<lparr>socks := socks st2 @ [(sessionIdA d, remoteJid)]\<rparr>)
                       else Inl (ProviderError, st2))))"

definition processSessionA ::
  "(string \<Rightarrow> string option) \<Rightarrow> (session_doc \<Rightarrow> bool) \<Rightarrow> session_doc
     \<Rightarrow> (string \<times> string) state \<Rightarrow> exn \<times> (string \<times> string) state + (string \<times> string) state" where
  "processSessionA oid prov d st =
     (case processSessionA_try oid prov d st of
        Inr st1 \<Rightarrow> Inr st1
      | Inl (e, st1) \<Rightarrow>
          (case declaredPhone (phoneNumber d) of
             Inl e' \<Rightarrow> Inl (e', st1)
           | Inr phone \<Rightarrow>
               Inr (removeFromPendingSessionsA oid (sessionIdA d)
                      (if phone \<noteq> [] then addToExpiredJids phone st1 else st1))))"

section \<open>The scheduler loop\<close>

text \<open>
  The provider delivers an update to a socket that exists; a closed socket gets no further
  updates. \<open>deliver\<close> runs the handler \<open>h\<close> of the socket \<open>c\<close>.
\<close>

definition deliver ::
  "('c \<Rightarrow> update \<Rightarrow> 'c state \<Rightarrow> 'c state) \<Rightarrow> 'c \<times> update \<Rightarrow> 'c state \<Rightarrow> 'c state" where
  "deliver h e st =
     (case e of (c, u) \<Rightarrow>
        if c \<in> set (socks st)
        then (let st1 = h c u st
              in case u of ConnOpen j \<Rightarrow> st1
                 | ConnClose lo j \<Rightarrow> st1\<lparr>socks := remove1 c (socks st1)\<rparr>)
        else st)"

definition deliverAll ::
  "('c \<Rightarrow> update \<Rightarrow> 'c state \<Rightarrow> 'c state) \<Rightarrow> ('c \<times> update) list \<Rightarrow> 'c state \<Rightarrow> 'c state" where
  "deliverAll h es st = foldl (\<lambda>s e. deliver h e s) st es"

text \<open>
  The \<^verbatim>\<open>for\<close> loop of \<^verbatim>\<open>processPendingSessions\<close> over the snapshot, the same in both
  servers up to the \<^verbatim>\<open>processSession\<close> it calls (\<open>proc\<close>). The head of \<open>evs\<close> holds the
  updates the provider delivers during the two-second delay that follows the record. An
  exception that leaves \<^verbatim>\<open>processSession\<close> leaves the loop as well.
\<close>

fun processLoop ::
  "(session_doc \<Rightarrow> 'c state \<Rightarrow> exn \<times> 'c state + 'c state)
     \<Rightarrow> ('c \<Rightarrow> update \<Rightarrow> 'c state \<Rightarrow> 'c state)
     \<Rightarrow> ('c \<times> update) list list \<Rightarrow> session_doc list \<Rightarrow> 'c state
     \<Rightarrow> exn \<times> 'c state + 'c state" where
  "processLoop proc h evs [] st = Inr st"
| "processLoop proc h evs (d # ds) st =
     (let (runningCount, st1) = getRunningBotsCount st
      in if runningCount \<ge> MAX_BOTS then Inr st1
         else (case proc d st1 of
                 Inl (e, st2) \<Rightarrow> Inl (e, st2)
               | Inr st2 \<Rightarrow>
                   processLoop proc h (tl evs) ds
                     (deliverAll h (case evs of [] \<Rightarrow> [] | es # _ \<Rightarrow> es) st2)))"

text \<open>\<^verbatim>\<open>processPendingSessions\<close>: the snapshot, the loop, and the \<^verbatim>\<open>try\<close>/\<^verbatim>\<open>catch\<close>
  around both, which logs the exception and ends the pass.\<close>

definition processPendingSessions ::
  "(session_doc \<Rightarrow> 'c state \<Rightarrow> exn \<times> 'c state + 'c state)
     \<Rightarrow> ('c \<Rightarrow> update \<Rightarrow> 'c state \<Rightarrow> 'c state)
     \<Rightarrow> ('c \<times> update) list list \<Rightarrow> 'c state \<Rightarrow> 'c state" where
  "processPendingSessions proc h evs st =
     (let (thrown, st1) = driver_call st
      in if thrown then st1
         else (case processLoop proc h evs (pending st1) st1 of
                 Inl (e, st2) \<Rightarrow> st2
               | Inr st2 \<Rightarrow> st2))"

definition processPendingSessionsB ::
  "(session_doc \<Rightarrow> bool) \<Rightarrow> (string \<times> update) list list \<Rightarrow> string state \<Rightarrow> string state" where
  "processPendingSessionsB prov = processPendingSessions (processSessionB prov) onUpdateB"


section \<open>The submission endpoints\<close>

datatype store_error = Unreachable | DuplicateKey

datatype response = Json200 | Err400 string | Err500 store_error

text \<open>\<^verbatim>\<open>insertOne\<close> on \<^verbatim>\<open>wasessions\<close>. The store rejects a second \<^verbatim>\<open>_id\<close> always and a
  second \<^verbatim>\<open>sessionId\<close> when the index of \<^verbatim>\<open>setup.js\<close> exists.\<close>

definition insertPending :: "session_doc \<Rightarrow> 'c state \<Rightarrow> store_error option \<times> 'c state" where
  "insertPending doc st =
     (let (thrown, st1) = driver_call st
      in if thrown then (Some Unreachable, st1)
         else if doc_id doc \<in> doc_id ` set (pending st1) then (Some DuplicateKey, st1)
         else if sessionId_index st1 \<and> sessionId doc \<in> sessionId ` set (pending st1)
         then (Some DuplicateKey, st1)
         else (None, st1\<lparr>pending := pending st1 @ [doc]\<rparr>))"

record add_body =
  b_sessionId :: "string option"
  b_phoneNumber :: "jvalue option"

text \<open>\<^verbatim>\<open>POST /add-session\<close>; \<open>nid\<close> is the \<^verbatim>\<open>ObjectId\<close> the driver generates for the
  document. The phone number is stored as it came.\<close>

definition add_session :: "string \<Rightarrow> add_body \<Rightarrow> 'c state \<Rightarrow> response \<times> 'c state" where
  "add_session nid body st =
     (if or_empty (b_sessionId body) = [] then (Err400 ''Session ID is required'', st)
      else (case insertPending
                   \<lparr>doc_id = ObjectId nid, sessionId = or_empty (b_sessionId body),
                    phoneNumber = b_phoneNumber body, hist = NoHistory, me_id = None\<rparr> st of
              (Some e, st1) \<Rightarrow> (Err500 e, st1)
            | (None, st1) \<Rightarrow> (Json200, st1)))"

text \<open>The \<^verbatim>\<open>sessionData\<close> object of an upload, by the keys that reach the fields of
  \<open>session_doc\<close>: it is spread last into the document, so its own \<^verbatim>\<open>_id\<close>,
  \<^verbatim>\<open>sessionId\<close> or \<^verbatim>\<open>phoneNumber\<close> key replaces the one the document would have. An
  \<^verbatim>\<open>_id\<close> that arrives in JSON is a string.\<close>

record session_data =
  sd_id :: "string option"
  sd_sessionId :: "string option"
  sd_phoneNumber :: "jvalue option"
  sd_hist :: history
  sd_me_id :: "jvalue option"

record upload_body =
  u_sessionId :: "string option"
  u_phoneNumber :: "jvalue option"
  u_sessionData :: "session_data option"

text \<open>\<^verbatim>\<open>phoneNumber || null\<close>\<close>

definition or_null :: "jvalue option \<Rightarrow> jvalue option" where
  "or_null v =
     (case v of
        None \<Rightarrow> None
      | Some (JStr s) \<Rightarrow> (if s = [] then None else v)
      | Some (JNum n) \<Rightarrow> (if n = 0 then None else v))"

text \<open>\<^verbatim>\<open>POST /upload-session\<close>. The request is typed, so the \<^verbatim>\<open>typeof\<close> test on
  \<^verbatim>\<open>sessionData\<close> has no failing case here.\<close>

definition upload_session :: "string \<Rightarrow> upload_body \<Rightarrow> 'c state \<Rightarrow> response \<times> 'c state" where
  "upload_session nid body st =
     (if or_empty (u_sessionId body) = [] then (Err400 ''Session ID is required'', st)
      else (case u_sessionData body of
              None \<Rightarrow> (Err400 ''Session data is required'', st)
            | Some sd \<Rightarrow>
                (let sid = or_empty (u_sessionId body);
                     (thrown, st1) = driver_call st
                 in if thrown then (Err500 Unreachable, st1)
                    else if sid \<in> sessionId ` set (pending st1)
                    then (Err400 ''Session ID already exists'', st1)
                    else (case insertPending
                                 \<lparr>doc_id = (case sd_id sd of None \<Rightarrow> ObjectId nid
                                             | Some s \<Rightarrow> StringId s),
                                  sessionId = (case sd_sessionId sd of None \<Rightarrow> sid | Some s \<Rightarrow> s),
                                  phoneNumber =
                                    (case sd_phoneNumber sd of
                                       None \<Rightarrow> or_null (u_phoneNumber body)
                                     | Some p \<Rightarrow> Some p),
                                  hist = sd_hist sd,
                                  me_id = sd_me_id sd\<rparr> st1 of
                            (Some e, st2) \<Rightarrow> (Err500 e, st2)
                          | (None, st2) \<Rightarrow> (Json200, st2)))))"

section \<open>Startup\<close>




section \<open>Example stores\<close>

text \<open>An instance of the driver's constructor: it takes a string of 24 hexadecimal digits
  and nothing else, and the id it builds prints in lower case.\<close>

definition lower_hex :: "char \<Rightarrow> char" where
  "lower_hex c =
     (if c = CHR ''A'' then CHR ''a'' else if c = CHR ''B'' then CHR ''b''
      else if c = CHR ''C'' then CHR ''c'' else if c = CHR ''D'' then CHR ''d''
      else if c = CHR ''E'' then CHR ''e'' else if c = CHR ''F'' then CHR ''f'' else c)"

definition hexObjectId :: "string \<Rightarrow> string option" where
  "hexObjectId s =
     (if length s = 24 \<and> list_all (\<lambda>c. c \<in> set ''0123456789abcdefABCDEF'') s
      then Some (map lower_hex s) else None)"

definition ex_phone :: "nat \<Rightarrow> string" where
  "ex_phone n = replicate (Suc n) CHR ''7''"

definition ex_jid :: "nat \<Rightarrow> string" where
  "ex_jid n = ex_phone n @ ''@s.whatsapp.net''"

definition ex_sid :: "nat \<Rightarrow> string" where
  "ex_sid n = replicate (Suc n) CHR ''s''"

text \<open>24 hexadecimal digits for \<open>n \<le> 24\<close>, different for different \<open>n\<close>.\<close>

definition ex_hex :: "nat \<Rightarrow> string" where
  "ex_hex n = replicate n CHR ''a'' @ replicate (24 - n) CHR ''0''"

definition ex_doc :: "nat \<Rightarrow> session_doc" where
  "ex_doc n = \<lparr>doc_id = ObjectId (ex_hex n), sessionId = ex_sid n,
               phoneNumber = Some (JStr (ex_phone n)), hist = NoHistory,
               me_id = Some (JStr (ex_phone n @ '':1@s.whatsapp.net''))\<rparr>"

definition ex_valid :: "nat \<Rightarrow> valid_doc" where
  "ex_valid n = \<lparr>Jid_field = Some (ex_jid n), jid_field = Some (ex_jid n)\<rparr>"

text \<open>A healthy store with \<open>n\<close> pending records, all of them subscribed, and nothing
  running.\<close>

definition ex_store :: "nat \<Rightarrow> 'c state" where
  "ex_store n =
     \<lparr>pending = map ex_doc [0..<n], valid = map ex_valid [0..<n], expired = [], running = [],
      sessionId_index = True, faults = [], activeBots = Map.empty, socks = []\<rparr>"

definition ex_rows :: "nat \<Rightarrow> running_doc list" where
  "ex_rows n = map (\<lambda>i. \<lparr>rb_jid = ex_jid i, rb_sessionId = ex_sid i\<rparr>) [0..<n]"

section \<open>Provider schedules\<close>

text \<open>
  The schedule in which every connection opens during the delay that follows its own
  record, before the next capacity check: \<open>js\<close> are the identities the provider reports,
  in the order of the records.
\<close>

definition opens_in_turnB :: "session_doc list \<Rightarrow> string list \<Rightarrow> (string \<times> update) list list" where
  "opens_in_turnB ds js = map (\<lambda>(d, j). [(sessionId d, ConnOpen j)]) (zip ds js)"



section \<open>The store calls on a healthy store\<close>

lemma driver_call_healthy: "faults st = [] \<Longrightarrow> driver_call st = (False, st)"
  by (simp add: driver_call_def)

lemma driver_call_throw: "faults st = True # fs \<Longrightarrow> driver_call st = (True, st\<lparr>faults := fs\<rparr>)"
  by (simp add: driver_call_def)

lemma driver_call_ok: "faults st = False # fs \<Longrightarrow> driver_call st = (False, st\<lparr>faults := fs\<rparr>)"
  by (simp add: driver_call_def)

lemma isJidSubscribedA_healthy:
  "faults st = [] \<Longrightarrow> isJidSubscribedA j st = (Some j \<in> Jid_field ` set (valid st), st)"
  by (simp add: isJidSubscribedA_def driver_call_healthy)

lemma isJidSubscribedB_healthy:
  "faults st = [] \<Longrightarrow> isJidSubscribedB j st = (Some j \<in> jid_field ` set (valid st), st)"
  by (simp add: isJidSubscribedB_def driver_call_healthy)

lemma addToExpiredJids_healthy:
  "faults st = [] \<Longrightarrow> addToExpiredJids p st =
     st\<lparr>expired := expired st @ [\<lparr>ex_phoneNumber = p, ex_reason = ''Invalid or expired session''\<rparr>]\<rparr>"
  by (simp add: addToExpiredJids_def driver_call_healthy)

lemma addToRunningBots_healthy:
  "faults st = [] \<Longrightarrow> addToRunningBots j sid st =
     (if j \<in> rb_jid ` set (running st) then st
      else st\<lparr>running := running st @ [\<lparr>rb_jid = j, rb_sessionId = sid\<rparr>]\<rparr>)"
  by (simp add: addToRunningBots_def driver_call_healthy)

lemma removeFromPendingSessionsB_healthy:
  "faults st = [] \<Longrightarrow> removeFromPendingSessionsB sid st =
     st\<lparr>pending := deleteOne (\<lambda>d. sessionId d = sid) (pending st)\<rparr>"
  by (simp add: removeFromPendingSessionsB_def driver_call_healthy)

lemma removeFromPendingSessionsA_healthy:
  "faults st = [] \<Longrightarrow> removeFromPendingSessionsA oid sid st =
     st\<lparr>pending := deleteOne (case oid sid of Some h \<Rightarrow> (\<lambda>d. doc_id d = ObjectId h)
                                | None \<Rightarrow> (\<lambda>d. sessionId d = sid))
                      (pending st)\<rparr>"
  by (simp add: removeFromPendingSessionsA_def driver_call_healthy)

lemma getRunningBotsCount_healthy:
  "faults st = [] \<Longrightarrow> getRunningBotsCount st = (length (running st), st)"
  by (simp add: getRunningBotsCount_def driver_call_healthy)

lemma removeFromRunningBots_healthy:
  "faults st = [] \<Longrightarrow> removeFromRunningBots j st =
     st\<lparr>running := deleteOne (\<lambda>r. rb_jid r = j) (running st)\<rparr>"
  by (simp add: removeFromRunningBots_def driver_call_healthy)

lemmas healthy =
  isJidSubscribedA_healthy isJidSubscribedB_healthy addToExpiredJids_healthy
  addToRunningBots_healthy removeFromPendingSessionsB_healthy removeFromPendingSessionsA_healthy
  getRunningBotsCount_healthy removeFromRunningBots_healthy


lemma or_empty_simps: "or_empty None = []" "or_empty (Some s) = s"
  by (simp_all add: or_empty_def)

lemma extractPhoneNumber_Nil: "extractPhoneNumber [] = []"
  by (simp add: extractPhoneNumber_def)


section \<open>Facts about deleteOne\<close>

lemma deleteOne_absent: "filter P xs = [] \<Longrightarrow> deleteOne P xs = xs"
  by (induction xs) (auto split: if_splits)

lemma deleteOne_only:
  "filter P xs = [d] \<Longrightarrow> deleteOne P xs = remove1 d xs"
proof (induction xs)
  case Nil
  then show ?case by simp
next
  case (Cons x xs)
  show ?case
  proof (cases "P x")
    case True
    with Cons.prems have "x = d" by simp
    with True show ?thesis by simp
  next
    case False
    with Cons.prems have f: "filter P xs = [d]" by simp
    then have "d \<in> set (filter P xs)" by simp
    then have "P d" by simp
    with False have "x \<noteq> d" by auto
    with False f Cons.IH show ?thesis by simp
  qed
qed

lemma only_gone: "filter P xs = [d] \<Longrightarrow> filter P (remove1 d xs) = []"
proof (induction xs)
  case Nil
  then show ?case by simp
next
  case (Cons x xs)
  show ?case
  proof (cases "P x")
    case True
    with Cons.prems have "x = d" and "filter P xs = []" by simp_all
    then show ?thesis by simp
  next
    case False
    with Cons.prems have f: "filter P xs = [d]" by simp
    then have "d \<in> set (filter P xs)" by simp
    then have "P d" by simp
    with False have "x \<noteq> d" by auto
    with False f Cons.IH show ?thesis by simp
  qed
qed

lemma filter_key_empty: "filter (\<lambda>x. f x = k) xs = [] \<Longrightarrow> k \<notin> f ` set xs"
  by (auto simp: filter_empty_conv)

lemma deleteOne_subset: "set (deleteOne P xs) \<subseteq> set xs"
  by (induction xs) auto

lemma deleteOne_jid_gone:
  assumes "distinct (map rb_jid rs)"
  shows "j \<notin> rb_jid ` set (deleteOne (\<lambda>r. rb_jid r = j) rs)"
  using assms
proof (induction rs)
  case Nil
  then show ?case by simp
next
  case (Cons r rs)
  show ?case
  proof (cases "rb_jid r = j")
    case True
    with Cons.prems show ?thesis by auto
  next
    case False
    with Cons show ?thesis by simp
  qed
qed

lemma pending_onUpdateB:
  assumes "faults st = []"
  shows "pending (onUpdateB sid u st) = deleteOne (\<lambda>d. sessionId d = sid) (pending st)"
    and "faults (onUpdateB sid u st) = []"
  using assms by (cases u; simp add: healthy Let_def split: prod.splits)+

lemma pending_onUpdateA:
  assumes "faults st = []" and "oid sid = Some h"
  shows "pending (onUpdateA oid (sid, rj) u st) = deleteOne (\<lambda>d. doc_id d = ObjectId h) (pending st)"
    and "faults (onUpdateA oid (sid, rj) u st) = []"
  using assms by (cases u; simp add: healthy Let_def split: prod.splits)+

section \<open>Facts about the scheduler loop\<close>



lemma loop_throw:
  assumes "faults st = []" and "length (running st) < MAX_BOTS" and "proc d st = Inl (e, st')"
  shows "processLoop proc h evs (d # ds) st = Inl (e, st')"
  using assms by (simp add: healthy)



section \<open>Facts about the example stores\<close>

lemma length_ex_rows: "length (ex_rows n) = n"
  by (simp add: ex_rows_def)

lemma takeWhile_replicate_append:
  "P c \<Longrightarrow> takeWhile P (replicate n c @ ys) = replicate n c @ takeWhile P ys"
  by (induction n) simp_all

lemma extract_ex_doc: "extractRemoteJidFromSession (ex_doc n) = Some (ex_jid n)"
  by (simp add: extractRemoteJidFromSession_def ex_doc_def ex_jid_def ex_phone_def
      takeWhile_replicate_append)


lemma phone_ex_jid: "extractPhoneNumber (ex_jid n) = ex_phone n"
  by (simp add: extractPhoneNumber_def ex_jid_def ex_phone_def takeWhile_replicate_append)

lemma declaredPhone_ex_doc: "declaredPhone (phoneNumber (ex_doc n)) = Inr (ex_phone n)"
  by (simp add: declaredPhone_def ex_doc_def extractPhoneNumber_def ex_phone_def)

lemma ex_jid_valid: "i < n \<Longrightarrow> Some (ex_jid i) \<in> Jid_field ` set (valid (ex_store n))"
  "i < n \<Longrightarrow> Some (ex_jid i) \<in> jid_field ` set (valid (ex_store n))"
  by (force simp: ex_store_def ex_valid_def)+

lemma ex_sid_inj: "ex_sid i = ex_sid j \<longleftrightarrow> i = j"
proof
  assume "ex_sid i = ex_sid j"
  then have "length (ex_sid i) = length (ex_sid j)" by simp
  then show "i = j" by (simp add: ex_sid_def)
qed simp

lemma ex_jid_inj: "ex_jid i = ex_jid j \<longleftrightarrow> i = j"
proof
  assume "ex_jid i = ex_jid j"
  then have "length (ex_jid i) = length (ex_jid j)" by simp
  then show "i = j" by (simp add: ex_jid_def ex_phone_def)
qed simp

lemma run_of_a_ex_hex: "length (takeWhile (\<lambda>c. c = CHR ''a'') (ex_hex n)) = n"
  by (simp add: ex_hex_def takeWhile_replicate_append)

lemma ex_hex_inj: "ex_hex i = ex_hex j \<longleftrightarrow> i = j"
proof
  assume "ex_hex i = ex_hex j"
  then have "length (takeWhile (\<lambda>c. c = CHR ''a'') (ex_hex i)) =
             length (takeWhile (\<lambda>c. c = CHR ''a'') (ex_hex j))"
    by simp
  then show "i = j" by (simp only: run_of_a_ex_hex)
qed simp

lemma ex_doc_inj: "ex_doc i = ex_doc j \<longleftrightarrow> i = j"
proof
  assume "ex_doc i = ex_doc j"
  then have "sessionId (ex_doc i) = sessionId (ex_doc j)" by (rule arg_cong)
  then show "i = j" by (simp add: ex_doc_def ex_sid_inj)
qed simp

lemma hexObjectId_ex_hex: "n \<le> 24 \<Longrightarrow> hexObjectId (ex_hex n) = Some (ex_hex n)"
  by (auto simp: hexObjectId_def ex_hex_def lower_hex_def list_all_iff)

lemma ex_hex_nonempty: "n \<le> 24 \<Longrightarrow> ex_hex n \<noteq> []"
  by (cases "n = 0") (simp_all add: ex_hex_def)

lemma doc_id_ex_doc: "doc_id (ex_doc n) = ObjectId (ex_hex n)"
  and sessionId_ex_doc: "sessionId (ex_doc n) = ex_sid n"
  by (simp_all add: ex_doc_def)

lemma sessionIdA_ex_doc: "n \<le> 24 \<Longrightarrow> sessionIdA (ex_doc n) = ex_hex n"
  by (simp add: sessionIdA_def doc_id_ex_doc ex_hex_nonempty)

lemma faults_ex_store: "faults (ex_store n) = []"
  and pending_ex_store: "pending (ex_store n) = map ex_doc [0..<n]"
  and running_ex_store: "running (ex_store n) = []"
  and expired_ex_store: "expired (ex_store n) = []"
  by (simp_all add: ex_store_def)

lemma only_ex_sid: "i < n \<Longrightarrow> filter (\<lambda>x. ex_sid x = ex_sid i) [0..<n] = [i]"
proof (induction n)
  case 0
  then show ?case by simp
next
  case (Suc n)
  show ?case
  proof (cases "i = n")
    case True
    have "filter (\<lambda>x. ex_sid x = ex_sid n) [0..<n] = []"
      by (auto simp: filter_empty_conv ex_sid_inj)
    with True show ?thesis by simp
  next
    case False
    with Suc show ?thesis by (simp add: ex_sid_inj)
  qed
qed

lemma only_ex_hex: "i < n \<Longrightarrow> filter (\<lambda>x. ex_hex x = ex_hex i) [0..<n] = [i]"
proof (induction n)
  case 0
  then show ?case by simp
next
  case (Suc n)
  show ?case
  proof (cases "i = n")
    case True
    have "filter (\<lambda>x. ex_hex x = ex_hex n) [0..<n] = []"
      by (auto simp: filter_empty_conv ex_hex_inj)
    with True show ?thesis by simp
  next
    case False
    with Suc show ?thesis by (simp add: ex_hex_inj)
  qed
qed

lemma only_ex_sessionId:
  "i < n \<Longrightarrow> filter (\<lambda>x. sessionId x = sessionId (ex_doc i)) (pending (ex_store n)) = [ex_doc i]"
  by (simp add: pending_ex_store filter_map comp_def sessionId_ex_doc only_ex_sid)

lemma only_ex_doc_id:
  "i < n \<Longrightarrow> filter (\<lambda>x. doc_id x = doc_id (ex_doc i)) (pending (ex_store n)) = [ex_doc i]"
  by (simp add: pending_ex_store filter_map comp_def doc_id_ex_doc only_ex_hex)


lemma ex_store_1: "ex_store (Suc 0) =
  \<lparr>pending = [ex_doc 0], valid = [ex_valid 0], expired = [], running = [],
   sessionId_index = True, faults = [], activeBots = Map.empty, socks = []\<rparr>"
  by (simp add: ex_store_def)

lemma ex_store_3: "pending (ex_store 3) = [ex_doc 0, ex_doc 1, ex_doc 2]"
  by (simp add: ex_store_def numeral_3_eq_3 numeral_2_eq_2)

lemma ex_rows_1: "ex_rows (Suc 0) = [\<lparr>rb_jid = ex_jid 0, rb_sessionId = ex_sid 0\<rparr>]"
  by (simp add: ex_rows_def)

lemma ex_sid_nonempty: "ex_sid n \<noteq> []" "ex_jid n \<noteq> []" "ex_phone n \<noteq> []"
  by (simp_all add: ex_sid_def ex_jid_def ex_phone_def)

lemma upt_16: "[0..<16] = [0,1,2,3,4,5,6,7,8,9,10,11,12,13,14,15]"
  by (simp add: upt_rec)

lemma upt_14: "[0..<14] = [0,1,2,3,4,5,6,7,8,9,10,11,12,13]"
  by (simp add: upt_rec)

lemmas store_calls =
  driver_call_def isJidSubscribedA_def isJidSubscribedB_def addToExpiredJids_def
  addToRunningBots_def removeFromPendingSessionsA_def removeFromPendingSessionsB_def
  getRunningBotsCount_def removeFromRunningBots_def

lemmas session_calls =
  processSessionA_def processSessionA_try_def processSessionB_def processSessionB_try_def
  deliver_def deliverAll_def MAX_BOTS_def state_of_def

section \<open>The capacity gate under a failing count query\<close>

text \<open>
  Claim C10. When the count query throws, \<^verbatim>\<open>getRunningBotsCount\<close> returns 0 and the error
  goes no further. The capacity gate then sees zero workers whatever the number of
  \<^verbatim>\<open>runningbots\<close> rows is, and admission proceeds: \<^verbatim>\<open>processSession\<close> returns with a
  socket opened for the record, also through the gate of the scheduler loop when that
  query throws as well, and in the server that checks the subscription first once that
  lookup has succeeded.
\<close>

theorem count_query_fails_open:
  assumes "prov d"
  shows "(faults st = True # fs \<longrightarrow>
            getRunningBotsCount st = (0, st\<lparr>faults := fs\<rparr>) \<and>
            processSessionB prov d st =
              Inr (st\<lparr>faults := fs, socks := socks st @ [sessionId d]\<rparr>)) \<and>
         (faults st = True # True # fs \<longrightarrow>
            processLoop (processSessionB prov) onUpdateB [] [d] st =
              Inr (st\<lparr>faults := fs, socks := socks st @ [sessionId d]\<rparr>)) \<and>
         (faults sa = False # True # fs \<and> extractRemoteJidFromSession d = Some rj \<and>
          Some rj \<in> Jid_field ` set (valid sa) \<longrightarrow>
            processSessionA oid prov d sa =
              Inr (sa\<lparr>faults := fs, socks := socks sa @ [(sessionIdA d, rj)]\<rparr>))"
proof (intro conjI impI)
  assume f: "faults st = True # fs"
  then show "getRunningBotsCount st = (0, st\<lparr>faults := fs\<rparr>)"
    by (simp add: getRunningBotsCount_def driver_call_throw)
  with assms show "processSessionB prov d st =
      Inr (st\<lparr>faults := fs, socks := socks st @ [sessionId d]\<rparr>)"
    by (simp add: processSessionB_def processSessionB_try_def MAX_BOTS_def)
next
  assume f: "faults st = True # True # fs"
  then have 1: "getRunningBotsCount st = (0, st\<lparr>faults := True # fs\<rparr>)"
    by (simp add: getRunningBotsCount_def driver_call_throw)
  have 2: "getRunningBotsCount (st\<lparr>faults := True # fs\<rparr>) = (0, st\<lparr>faults := fs\<rparr>)"
    by (simp add: getRunningBotsCount_def driver_call_throw)
  from assms 1 2 show "processLoop (processSessionB prov) onUpdateB [] [d] st =
      Inr (st\<lparr>faults := fs, socks := socks st @ [sessionId d]\<rparr>)"
    by (simp add: processSessionB_def processSessionB_try_def MAX_BOTS_def deliverAll_def)
next
  assume a: "faults sa = False # True # fs \<and> extractRemoteJidFromSession d = Some rj \<and>
          Some rj \<in> Jid_field ` set (valid sa)"
  then have 1: "isJidSubscribedA rj sa = (True, sa\<lparr>faults := True # fs\<rparr>)"
    by (simp add: isJidSubscribedA_def driver_call_ok)
  have 2: "getRunningBotsCount (sa\<lparr>faults := True # fs\<rparr>) = (0, sa\<lparr>faults := fs\<rparr>)"
    by (simp add: getRunningBotsCount_def driver_call_throw)
  from assms a 1 2 show "processSessionA oid prov d sa =
              Inr (sa\<lparr>faults := fs, socks := socks sa @ [(sessionIdA d, rj)]\<rparr>)"
    by (simp add: processSessionA_def processSessionA_try_def MAX_BOTS_def)
qed

theorem count_query_fails_open_witness:
  "length (running ((ex_store 16 :: string state)\<lparr>running := ex_rows 15\<rparr>)) = MAX_BOTS \<and>
   fst (getRunningBotsCount ((ex_store 16 :: string state)\<lparr>running := ex_rows 15, faults := [True, True]\<rparr>)) = 0 \<and>
   processLoop (processSessionB (\<lambda>d. True)) onUpdateB [] [ex_doc 15]
       ((ex_store 16)\<lparr>running := ex_rows 15, faults := [True, True]\<rparr>) =
     Inr ((ex_store 16)\<lparr>running := ex_rows 15, socks := [ex_sid 15]\<rparr>) \<and>
   processSessionA hexObjectId (\<lambda>d. True) (ex_doc 15)
       ((ex_store 16)\<lparr>running := ex_rows 15, faults := [False, True]\<rparr>) =
     Inr ((ex_store 16)\<lparr>running := ex_rows 15, socks := [(sessionIdA (ex_doc 15), ex_jid 15)]\<rparr>)"
  using count_query_fails_open [where prov = "\<lambda>d. True" and d = "ex_doc 15"
      and st = "(ex_store 16)\<lparr>running := ex_rows 15, faults := [True, True]\<rparr>" and fs = "[True]"]
    count_query_fails_open [where prov = "\<lambda>d. True" and d = "ex_doc 15"
      and st = "(ex_store 16)\<lparr>running := ex_rows 15, faults := [True, True]\<rparr>" and fs = "[]"
      and sa = "(ex_store 16)\<lparr>running := ex_rows 15, faults := [False, True]\<rparr>"
      and rj = "ex_jid 15" and oid = hexObjectId]
    ex_jid_valid(1) [of 15 16]
  by (simp add: length_ex_rows MAX_BOTS_def extract_ex_doc sessionId_ex_doc del: processLoop.simps)
     (simp add: ex_store_def)

section \<open>Worker handles and running rows\<close>

text \<open>
  Claim C7, at a failing input. One subscribed record is admitted by the server that checks
  after the connection opened, its connection opens and later closes for a reason other
  than logout. The close handler deletes the handle from \<^verbatim>\<open>activeBots\<close> and never touches
  \<^verbatim>\<open>runningbots\<close>: the row stays with no handle behind it.
\<close>

theorem running_row_outlives_handle:
  "running (deliverAll onUpdateB
              [(ex_sid 0, ConnOpen (ex_jid 0)), (ex_sid 0, ConnClose False (Some (ex_jid 0)))]
              (state_of (processSessionB (\<lambda>d. True) (ex_doc 0) (ex_store 1)))) =
     [\<lparr>rb_jid = ex_jid 0, rb_sessionId = ex_sid 0\<rparr>] \<and>
   activeBots (deliverAll onUpdateB
              [(ex_sid 0, ConnOpen (ex_jid 0)), (ex_sid 0, ConnClose False (Some (ex_jid 0)))]
              (state_of (processSessionB (\<lambda>d. True) (ex_doc 0) (ex_store 1)))) (ex_sid 0) = None \<and>
   activeBots (deliverAll onUpdateB [(ex_sid 0, ConnOpen (ex_jid 0))]
              (state_of (processSessionB (\<lambda>d. True) (ex_doc 0) (ex_store 1)))) (ex_sid 0) =
     Some (ex_sid 0) \<and>
   processSessionB (\<lambda>d. True) (ex_doc 0) (ex_store 1) = Inr ((ex_store 1)\<lparr>socks := [ex_sid 0]\<rparr>)"
  by (simp add: ex_store_1 session_calls store_calls sessionId_ex_doc ex_valid_def)

section \<open>The concurrency cap\<close>

text \<open>
  Claim C1, at a failing input. Sixteen subscribed records are pending and nothing runs.
  The first fourteen connections open during the delay after their record; the fifteenth
  takes longer than the delay. At the sixteenth record the gate counts fourteen rows and
  lets it through, both connections open afterwards, and \<^verbatim>\<open>runningbots\<close> holds sixteen rows
  with \<^verbatim>\<open>MAX_BOTS = 15\<close>: the row is inserted in the open handler, which checks no capacity.
\<close>

theorem capacity_exceeded_by_late_open:
  "length (running (deliverAll onUpdateB
       [(ex_sid 14, ConnOpen (ex_jid 14)), (ex_sid 15, ConnOpen (ex_jid 15))]
       (processPendingSessionsB (\<lambda>d. True)
          (opens_in_turnB (map ex_doc [0..<14]) (map ex_jid [0..<14])) (ex_store 16)))) = 16"
  by (simp add: processPendingSessionsB_def processPendingSessions_def opens_in_turnB_def
      ex_store_def upt_16 upt_14 session_calls store_calls sessionId_ex_doc ex_valid_def
      ex_jid_inj ex_sid_inj ex_doc_inj)

section \<open>The identity the authorization check reads\<close>




section \<open>Rejection of an unsubscribed identity\<close>




section \<open>Connection close\<close>

text \<open>
  Claim C4, as stated, fails. A subscribed record is admitted, its connection opens and
  then closes with the logged-out status. In the server that checks after the connection
  opened the \<^verbatim>\<open>runningbots\<close> row is still there after the close. In the server that checks
  before connecting the one \<^verbatim>\<open>expiredjid\<close> document written carries the reason
  \<^verbatim>\<open>'Invalid or expired session'\<close>, the only one the code has, and none carries a reason of
  its own for the logout.
\<close>

theorem close_logged_out_counterexample:
  "running (deliverAll onUpdateB
              [(ex_sid 0, ConnOpen (ex_jid 0)), (ex_sid 0, ConnClose True (Some (ex_jid 0)))]
              (state_of (processSessionB (\<lambda>d. True) (ex_doc 0) (ex_store 1)))) =
     [\<lparr>rb_jid = ex_jid 0, rb_sessionId = ex_sid 0\<rparr>] \<and>
   expired (deliverAll (onUpdateA hexObjectId)
              [((sessionIdA (ex_doc 0), ex_jid 0), ConnOpen (ex_jid 0)),
               ((sessionIdA (ex_doc 0), ex_jid 0), ConnClose True (Some (ex_jid 0)))]
              (state_of (processSessionA hexObjectId (\<lambda>d. True) (ex_doc 0) (ex_store 1)))) =
     [\<lparr>ex_phoneNumber = ex_phone 0, ex_reason = ''Invalid or expired session''\<rparr>] \<and>
   ''logged-out'' \<notin>
     ex_reason ` set (expired (deliverAll (onUpdateA hexObjectId)
              [((sessionIdA (ex_doc 0), ex_jid 0), ConnOpen (ex_jid 0)),
               ((sessionIdA (ex_doc 0), ex_jid 0), ConnClose True (Some (ex_jid 0)))]
              (state_of (processSessionA hexObjectId (\<lambda>d. True) (ex_doc 0) (ex_store 1)))))"
  by (simp add: ex_store_1 session_calls store_calls extract_ex_doc phone_ex_jid ex_valid_def
      ex_sid_nonempty sessionId_ex_doc or_empty_simps sessionIdA_ex_doc hexObjectId_ex_hex)

text \<open>
  Claim C4, amended. On a healthy store the close handler of either server appends one
  \<^verbatim>\<open>expiredjid\<close> document, with the reason \<^verbatim>\<open>'Invalid or expired session'\<close>, when the close
  is a logout and the phone part of the worker's jid is not empty, and none otherwise; it
  deletes the handle from \<^verbatim>\<open>activeBots\<close>, issues the removal of the pending record again
  and opens no new socket, so nothing reconnects. In the server that checks before
  connecting it also deletes the \<^verbatim>\<open>runningbots\<close> row of the worker's jid, after which, the
  jids of the rows being distinct, no row for that jid is left.
\<close>

theorem close_handler:
  assumes "faults sa = []" and "distinct (map rb_jid (running sa))"
    and "(sid, rj) \<in> set (socks sa)"
    and "faults st = []" and "sid \<in> set (socks st)"
  shows "expired (onUpdateA oid (sid, rj) (ConnClose lo u) sa) =
           expired sa @
             (if lo \<and> extractPhoneNumber rj \<noteq> []
              then [\<lparr>ex_phoneNumber = extractPhoneNumber rj,
                     ex_reason = ''Invalid or expired session''\<rparr>]
              else []) \<and>
         running (onUpdateA oid (sid, rj) (ConnClose lo u) sa) =
           deleteOne (\<lambda>r. rb_jid r = rj) (running sa) \<and>
         rj \<notin> rb_jid ` set (running (onUpdateA oid (sid, rj) (ConnClose lo u) sa)) \<and>
         activeBots (onUpdateA oid (sid, rj) (ConnClose lo u) sa) sid = None \<and>
         set (pending (onUpdateA oid (sid, rj) (ConnClose lo u) sa)) \<subseteq> set (pending sa) \<and>
         socks (deliver (onUpdateA oid) ((sid, rj), ConnClose lo u) sa) =
           remove1 (sid, rj) (socks sa) \<and>
         expired (onUpdateB sid (ConnClose lo u) st) =
           expired st @
             (if lo \<and> extractPhoneNumber (or_empty u) \<noteq> []
              then [\<lparr>ex_phoneNumber = extractPhoneNumber (or_empty u),
                     ex_reason = ''Invalid or expired session''\<rparr>]
              else []) \<and>
         activeBots (onUpdateB sid (ConnClose lo u) st) sid = None \<and>
         set (pending (onUpdateB sid (ConnClose lo u) st)) \<subseteq> set (pending st) \<and>
         socks (deliver onUpdateB (sid, ConnClose lo u) st) = remove1 sid (socks st)"
proof -
  have a1: "expired (onUpdateA oid (sid, rj) (ConnClose lo u) sa) =
           expired sa @
             (if lo \<and> extractPhoneNumber rj \<noteq> []
              then [\<lparr>ex_phoneNumber = extractPhoneNumber rj,
                     ex_reason = ''Invalid or expired session''\<rparr>]
              else [])"
    using assms(1) by (simp add: healthy Let_def)
  have a2: "running (onUpdateA oid (sid, rj) (ConnClose lo u) sa) =
           deleteOne (\<lambda>r. rb_jid r = rj) (running sa)"
    using assms(1) by (simp add: healthy Let_def)
  have a3: "rj \<notin> rb_jid ` set (running (onUpdateA oid (sid, rj) (ConnClose lo u) sa))"
    unfolding a2 using assms(2) by (rule deleteOne_jid_gone)
  have a4: "activeBots (onUpdateA oid (sid, rj) (ConnClose lo u) sa) sid = None"
    using assms(1) by (simp add: healthy Let_def)
  have a5: "set (pending (onUpdateA oid (sid, rj) (ConnClose lo u) sa)) \<subseteq> set (pending sa)"
    using assms(1) by (simp add: healthy Let_def deleteOne_subset)
  have a6: "socks (deliver (onUpdateA oid) ((sid, rj), ConnClose lo u) sa) =
           remove1 (sid, rj) (socks sa)"
    using assms(1,3) by (simp add: deliver_def healthy Let_def)
  have b1: "expired (onUpdateB sid (ConnClose lo u) st) =
           expired st @
             (if lo \<and> extractPhoneNumber (or_empty u) \<noteq> []
              then [\<lparr>ex_phoneNumber = extractPhoneNumber (or_empty u),
                     ex_reason = ''Invalid or expired session''\<rparr>]
              else [])"
    using assms(4) by (simp add: healthy Let_def)
  have b2: "activeBots (onUpdateB sid (ConnClose lo u) st) sid = None"
    using assms(4) by (simp add: healthy Let_def)
  have b3: "set (pending (onUpdateB sid (ConnClose lo u) st)) \<subseteq> set (pending st)"
    using assms(4) by (simp add: healthy Let_def deleteOne_subset)
  have b4: "socks (deliver onUpdateB (sid, ConnClose lo u) st) = remove1 sid (socks st)"
    using assms(4,5) by (simp add: deliver_def healthy Let_def)
  from a1 a2 a3 a4 a5 a6 b1 b2 b3 b4 show ?thesis
    by blast
qed

theorem close_handler_witness:
  "expired (onUpdateA hexObjectId (ex_sid 0, ex_jid 0) (ConnClose True None)
              ((ex_store 0)\<lparr>running := ex_rows 1, socks := [(ex_sid 0, ex_jid 0)]\<rparr>)) =
     [\<lparr>ex_phoneNumber = ex_phone 0, ex_reason = ''Invalid or expired session''\<rparr>] \<and>
   running (onUpdateA hexObjectId (ex_sid 0, ex_jid 0) (ConnClose True None)
              ((ex_store 0)\<lparr>running := ex_rows 1, socks := [(ex_sid 0, ex_jid 0)]\<rparr>)) = [] \<and>
   socks (deliver (onUpdateA hexObjectId) ((ex_sid 0, ex_jid 0), ConnClose True None)
              ((ex_store 0)\<lparr>running := ex_rows 1, socks := [(ex_sid 0, ex_jid 0)]\<rparr>)) = [] \<and>
   expired (onUpdateB (ex_sid 0) (ConnClose True None)
              ((ex_store 0)\<lparr>running := ex_rows 1, socks := [ex_sid 0]\<rparr>)) = [] \<and>
   socks (deliver onUpdateB (ex_sid 0, ConnClose True None)
              ((ex_store 0)\<lparr>running := ex_rows 1, socks := [ex_sid 0]\<rparr>)) = []"
proof -
  have h: "faults ((ex_store 0 :: (string \<times> string) state)
              \<lparr>running := ex_rows 1, socks := [(ex_sid 0, ex_jid 0)]\<rparr>) = []"
    "distinct (map rb_jid (running ((ex_store 0 :: (string \<times> string) state)
              \<lparr>running := ex_rows 1, socks := [(ex_sid 0, ex_jid 0)]\<rparr>)))"
    "(ex_sid 0, ex_jid 0) \<in> set (socks ((ex_store 0 :: (string \<times> string) state)
              \<lparr>running := ex_rows 1, socks := [(ex_sid 0, ex_jid 0)]\<rparr>))"
    "faults ((ex_store 0 :: string state)\<lparr>running := ex_rows 1, socks := [ex_sid 0]\<rparr>) = []"
    "ex_sid 0 \<in> set (socks ((ex_store 0 :: string state)
              \<lparr>running := ex_rows 1, socks := [ex_sid 0]\<rparr>))"
    by (simp_all add: ex_rows_1 faults_ex_store)
  show ?thesis
    using close_handler [OF h, where oid = hexObjectId and lo = True and u = None]
    by (simp add: ex_rows_1 phone_ex_jid ex_sid_nonempty or_empty_def extractPhoneNumber_Nil
        ex_store_def del: onUpdateA.simps onUpdateB.simps)
qed

section \<open>The drain pass\<close>









section \<open>Removal of the pending record\<close>

text \<open>
  Claim C6, as stated, fails. Without the index of \<^verbatim>\<open>setup.js\<close> two pending records can
  carry the same \<^verbatim>\<open>sessionId\<close>; then the open handler removes the first of them and the
  close handler of the same session, a second removal, removes the other. And in the
  server that checks before connecting, a record whose \<^verbatim>\<open>_id\<close> is a string of 24
  hexadecimal digits is rejected as unsubscribed and stays pending: the removal asks for
  an \<^verbatim>\<open>ObjectId\<close>, which a string never equals.
\<close>

theorem pending_removal_counterexample:
  "pending (onUpdateB (ex_sid 0) (ConnOpen (ex_jid 0))
              ((ex_store 0)\<lparr>sessionId_index := False,
                             pending := [ex_doc 0, (ex_doc 1)\<lparr>sessionId := ex_sid 0\<rparr>]\<rparr>)) =
     [(ex_doc 1)\<lparr>sessionId := ex_sid 0\<rparr>] \<and>
   pending (onUpdateB (ex_sid 0) (ConnClose False None)
              (onUpdateB (ex_sid 0) (ConnOpen (ex_jid 0))
                 ((ex_store 0)\<lparr>sessionId_index := False,
                                pending := [ex_doc 0, (ex_doc 1)\<lparr>sessionId := ex_sid 0\<rparr>]\<rparr>))) = [] \<and>
   hexObjectId (ex_hex 0) = Some (ex_hex 0) \<and>
   processSessionA hexObjectId (\<lambda>d. True) ((ex_doc 0)\<lparr>doc_id := StringId (ex_hex 0)\<rparr>)
       ((ex_store 0)\<lparr>pending := [(ex_doc 0)\<lparr>doc_id := StringId (ex_hex 0)\<rparr>]\<rparr>) =
     Inr ((ex_store 0)
            \<lparr>pending := [(ex_doc 0)\<lparr>doc_id := StringId (ex_hex 0)\<rparr>],
             expired := [\<lparr>ex_phoneNumber = ex_phone 0,
                          ex_reason = ''Invalid or expired session''\<rparr>]\<rparr>)"
proof -
  have e: "extractRemoteJidFromSession ((ex_doc 0)\<lparr>doc_id := StringId (ex_hex 0)\<rparr>) = Some (ex_jid 0)"
    using extract_ex_doc [of 0] by (simp add: extractRemoteJidFromSession_def)
  have s: "sessionIdA ((ex_doc 0)\<lparr>doc_id := StringId (ex_hex 0)\<rparr>) = ex_hex 0"
    by (simp add: sessionIdA_def ex_hex_nonempty)
  have o: "hexObjectId (ex_hex 0) = Some (ex_hex 0)"
    by (simp add: hexObjectId_ex_hex)
  have b: "pending (onUpdateB (ex_sid 0) (ConnOpen (ex_jid 0))
              ((ex_store 0)\<lparr>sessionId_index := False,
                             pending := [ex_doc 0, (ex_doc 1)\<lparr>sessionId := ex_sid 0\<rparr>]\<rparr>)) =
     [(ex_doc 1)\<lparr>sessionId := ex_sid 0\<rparr>]"
    "pending (onUpdateB (ex_sid 0) (ConnClose False None)
              (onUpdateB (ex_sid 0) (ConnOpen (ex_jid 0))
                 ((ex_store 0)\<lparr>sessionId_index := False,
                                pending := [ex_doc 0, (ex_doc 1)\<lparr>sessionId := ex_sid 0\<rparr>]\<rparr>))) = []"
    by (simp_all add: pending_onUpdateB faults_ex_store sessionId_ex_doc ex_store_def
        del: onUpdateB.simps)
  have a: "processSessionA hexObjectId (\<lambda>d. True) ((ex_doc 0)\<lparr>doc_id := StringId (ex_hex 0)\<rparr>)
       ((ex_store 0)\<lparr>pending := [(ex_doc 0)\<lparr>doc_id := StringId (ex_hex 0)\<rparr>]\<rparr>) =
     Inr ((ex_store 0)
            \<lparr>pending := [(ex_doc 0)\<lparr>doc_id := StringId (ex_hex 0)\<rparr>],
             expired := [\<lparr>ex_phoneNumber = ex_phone 0,
                          ex_reason = ''Invalid or expired session''\<rparr>]\<rparr>)"
    by (simp add: processSessionA_def processSessionA_try_def e s o healthy faults_ex_store
        phone_ex_jid)
       (simp add: ex_store_def)
  from b o a show ?thesis
    by (intro conjI)
qed

text \<open>
  Claim C6, amended. On a healthy store, take a pending record whose identifier no other
  pending record carries: its \<^verbatim>\<open>sessionId\<close> in the server that checks after the connection
  opened, and in the server that checks before connecting its \<^verbatim>\<open>_id\<close>, an \<^verbatim>\<open>ObjectId\<close> that
  the driver rebuilds from its string form. Every terminal branch removes that record and
  nothing else: the update handler (activation, rejection after the connection opened,
  close), the catch block after a provider error when the declared phone number is
  missing or a string, and in the server that checks before connecting also the branches
  for a missing identity and for an unsubscribed one. Afterwards no record with that
  identifier is left, and a further removal (the close handler after the open handler, or
  the call repeated) changes nothing.
\<close>

theorem pending_record_removed_once:
  assumes "faults st = []"
    and "filter (\<lambda>x. sessionId x = sessionId d) (pending st) = [d]"
    and "faults sa = []"
    and "filter (\<lambda>x. doc_id x = doc_id da) (pending sa) = [da]"
    and "doc_id da = ObjectId h" and "h \<noteq> []" and "oid h = Some h"
  shows "pending (onUpdateB (sessionId d) u st) = remove1 d (pending st) \<and>
         (\<not> prov d \<and> length (running st) < MAX_BOTS \<and> declaredPhone (phoneNumber d) = Inr ph \<longrightarrow>
            pending (state_of (processSessionB prov d st)) = remove1 d (pending st)) \<and>
         sessionId d \<notin> sessionId ` set (remove1 d (pending st)) \<and>
         pending (onUpdateB (sessionId d) u' (onUpdateB (sessionId d) u st)) =
           remove1 d (pending st) \<and>
         removeFromPendingSessionsB (sessionId d) (removeFromPendingSessionsB (sessionId d) st) =
           removeFromPendingSessionsB (sessionId d) st \<and>
         pending (onUpdateA oid (sessionIdA da, rj) u sa) = remove1 da (pending sa) \<and>
         ((case extractRemoteJidFromSession da of
             None \<Rightarrow> True
           | Some j \<Rightarrow> Some j \<notin> Jid_field ` set (valid sa) \<or>
                       (length (running sa) < MAX_BOTS \<and> \<not> prova da \<and>
                        declaredPhone (phoneNumber da) = Inr pha)) \<longrightarrow>
            pending (state_of (processSessionA oid prova da sa)) = remove1 da (pending sa)) \<and>
         doc_id da \<notin> doc_id ` set (remove1 da (pending sa)) \<and>
         pending (onUpdateA oid (sessionIdA da, rj) u' (onUpdateA oid (sessionIdA da, rj) u sa)) =
           remove1 da (pending sa) \<and>
         removeFromPendingSessionsA oid (sessionIdA da)
             (removeFromPendingSessionsA oid (sessionIdA da) sa) =
           removeFromPendingSessionsA oid (sessionIdA da) sa"
proof -
  have delB: "deleteOne (\<lambda>x. sessionId x = sessionId d) (pending st) = remove1 d (pending st)"
    using assms(2) by (rule deleteOne_only)
  have emptyB: "filter (\<lambda>x. sessionId x = sessionId d) (remove1 d (pending st)) = []"
    using assms(2) by (rule only_gone)
  have againB: "deleteOne (\<lambda>x. sessionId x = sessionId d) (remove1 d (pending st)) =
      remove1 d (pending st)"
    using emptyB by (rule deleteOne_absent)
  have goneB: "sessionId d \<notin> sessionId ` set (remove1 d (pending st))"
    using emptyB by (rule filter_key_empty)
  have sidA: "sessionIdA da = h"
    using assms(5,6) by (simp add: sessionIdA_def)
  have delA: "deleteOne (\<lambda>x. doc_id x = ObjectId h) (pending sa) = remove1 da (pending sa)"
    using assms(4) unfolding assms(5) by (rule deleteOne_only)
  have emptyA: "filter (\<lambda>x. doc_id x = ObjectId h) (remove1 da (pending sa)) = []"
    using assms(4) unfolding assms(5) by (rule only_gone)
  have againA: "deleteOne (\<lambda>x. doc_id x = ObjectId h) (remove1 da (pending sa)) =
      remove1 da (pending sa)"
    using emptyA by (rule deleteOne_absent)
  have goneA: "doc_id da \<notin> doc_id ` set (remove1 da (pending sa))"
    using emptyA unfolding assms(5) by (rule filter_key_empty)
  have c1: "pending (onUpdateB (sessionId d) u st) = remove1 d (pending st)"
    using assms(1) delB by (simp add: pending_onUpdateB)
  have c2: "\<not> prov d \<and> length (running st) < MAX_BOTS \<and> declaredPhone (phoneNumber d) = Inr ph \<longrightarrow>
            pending (state_of (processSessionB prov d st)) = remove1 d (pending st)"
    using assms(1) delB
    by (simp add: processSessionB_def processSessionB_try_def healthy state_of_def)
  have c4: "pending (onUpdateB (sessionId d) u' (onUpdateB (sessionId d) u st)) =
           remove1 d (pending st)"
    using assms(1) c1 againB by (simp add: pending_onUpdateB)
  have c5: "removeFromPendingSessionsB (sessionId d) (removeFromPendingSessionsB (sessionId d) st) =
           removeFromPendingSessionsB (sessionId d) st"
    using assms(1) delB againB by (simp add: healthy)
  have c6: "pending (onUpdateA oid (sessionIdA da, rj) u sa) = remove1 da (pending sa)"
    using assms(3,7) delA sidA by (simp add: pending_onUpdateA)
  have c7: "(case extractRemoteJidFromSession da of
             None \<Rightarrow> True
           | Some j \<Rightarrow> Some j \<notin> Jid_field ` set (valid sa) \<or>
                       (length (running sa) < MAX_BOTS \<and> \<not> prova da \<and>
                        declaredPhone (phoneNumber da) = Inr pha)) \<longrightarrow>
            pending (state_of (processSessionA oid prova da sa)) = remove1 da (pending sa)"
    using assms(3,7) delA sidA
    by (auto simp: processSessionA_def processSessionA_try_def healthy state_of_def
        split: option.splits)
  have c9: "pending (onUpdateA oid (sessionIdA da, rj) u' (onUpdateA oid (sessionIdA da, rj) u sa)) =
           remove1 da (pending sa)"
    using assms(3,7) c6 againA sidA by (simp add: pending_onUpdateA)
  have c10: "removeFromPendingSessionsA oid (sessionIdA da)
             (removeFromPendingSessionsA oid (sessionIdA da) sa) =
           removeFromPendingSessionsA oid (sessionIdA da) sa"
    using assms(3,7) sidA delA againA by (simp add: healthy)
  from c1 c2 goneB c4 c5 c6 c7 goneA c9 c10 show ?thesis
    by blast
qed

theorem pending_record_removed_once_witness:
  "pending (onUpdateB (ex_sid 1) (ConnOpen (ex_jid 1)) (ex_store 3)) = [ex_doc 0, ex_doc 2] \<and>
   pending (state_of (processSessionB (\<lambda>d. False) (ex_doc 1) (ex_store 3))) =
     [ex_doc 0, ex_doc 2] \<and>
   pending (onUpdateB (ex_sid 1) (ConnClose False None)
              (onUpdateB (ex_sid 1) (ConnOpen (ex_jid 1)) (ex_store 3))) = [ex_doc 0, ex_doc 2] \<and>
   pending (onUpdateA hexObjectId (sessionIdA (ex_doc 1), ex_jid 1) (ConnOpen (ex_jid 1))
              (ex_store 3)) = [ex_doc 0, ex_doc 2] \<and>
   pending (state_of (processSessionA hexObjectId (\<lambda>d. False) (ex_doc 1) (ex_store 3))) =
     [ex_doc 0, ex_doc 2]"
proof -
  have h1: "faults (ex_store 3 :: string state) = []"
    and h3: "faults (ex_store 3 :: (string \<times> string) state) = []"
    and h5: "doc_id (ex_doc 1) = ObjectId (ex_hex 1)" and h6: "ex_hex 1 \<noteq> []"
    and h7: "hexObjectId (ex_hex 1) = Some (ex_hex 1)"
    by (simp_all add: faults_ex_store doc_id_ex_doc ex_hex_nonempty hexObjectId_ex_hex)
  have h2: "filter (\<lambda>x. sessionId x = sessionId (ex_doc 1)) (pending (ex_store 3 :: string state)) =
       [ex_doc 1]"
    by (rule only_ex_sessionId) simp
  have h4: "filter (\<lambda>x. doc_id x = doc_id (ex_doc 1))
              (pending (ex_store 3 :: (string \<times> string) state)) = [ex_doc 1]"
    by (rule only_ex_doc_id) simp
  note h = h1 h2 h3 h4 h5 h6 h7
  have v: "Some (ex_jid 1) \<in> Jid_field ` set (valid (ex_store 3 :: (string \<times> string) state))"
    by (simp add: ex_jid_valid)
  show ?thesis
    using v pending_record_removed_once [where oid = hexObjectId, OF h,
      where u = "ConnOpen (ex_jid 1)"
      and u' = "ConnClose False None" and rj = "ex_jid 1" and prov = "\<lambda>d. False"
      and prova = "\<lambda>d. False" and ph = "ex_phone 1" and pha = "ex_phone 1"]
    by (simp add: sessionId_ex_doc extract_ex_doc ex_store_3 ex_doc_inj MAX_BOTS_def
        declaredPhone_ex_doc running_ex_store
        del: onUpdateA.simps onUpdateB.simps)
qed

section \<open>Duplicate submissions\<close>

lemma insertPending_fresh:
  assumes "faults st = []" and "doc_id doc \<notin> doc_id ` set (pending st)"
    and "sessionId doc \<notin> sessionId ` set (pending st)"
  shows "insertPending doc st = (None, st\<lparr>pending := pending st @ [doc]\<rparr>)"
  using assms by (simp add: insertPending_def driver_call_healthy)

lemma insertPending_duplicate:
  assumes "faults st = []" and "sessionId_index st"
    and "sessionId doc \<in> sessionId ` set (pending st)"
  shows "insertPending doc st = (Some DuplicateKey, st)"
  using assms by (simp add: insertPending_def driver_call_healthy)

text \<open>
  Claim C8, as stated, fails. With the index of \<^verbatim>\<open>setup.js\<close> in place, a second upload of
  the same identifier is turned away by the handler's own \<^verbatim>\<open>findOne\<close> test with status 400,
  before any insert reaches the store, so not by a uniqueness violation of the store.
  Without that index, which neither server creates, \<^verbatim>\<open>/add-session\<close> accepts the same
  identifier twice and two pending records carry it.
\<close>

theorem duplicate_submission_counterexample:
  "sessionId_index (ex_store 0) \<and>
   fst (upload_session (ex_hex 2)
          \<lparr>u_sessionId = Some ''s1'', u_phoneNumber = None,
           u_sessionData = Some \<lparr>sd_id = None, sd_sessionId = None, sd_phoneNumber = None,
                                 sd_hist = NoHistory, sd_me_id = None\<rparr>\<rparr>
          (snd (upload_session (ex_hex 3)
                  \<lparr>u_sessionId = Some ''s1'', u_phoneNumber = None,
                   u_sessionData = Some \<lparr>sd_id = None, sd_sessionId = None, sd_phoneNumber = None,
                                         sd_hist = NoHistory, sd_me_id = None\<rparr>\<rparr>
                  (ex_store 0)))) = Err400 ''Session ID already exists'' \<and>
   fst (add_session (ex_hex 2) \<lparr>b_sessionId = Some ''s1'', b_phoneNumber = None\<rparr>
          (snd (add_session (ex_hex 3) \<lparr>b_sessionId = Some ''s1'', b_phoneNumber = None\<rparr>
                  ((ex_store 0)\<lparr>sessionId_index := False\<rparr>)))) = Json200 \<and>
   map sessionId
     (pending (snd (add_session (ex_hex 2) \<lparr>b_sessionId = Some ''s1'', b_phoneNumber = None\<rparr>
          (snd (add_session (ex_hex 3) \<lparr>b_sessionId = Some ''s1'', b_phoneNumber = None\<rparr>
                  ((ex_store 0)\<lparr>sessionId_index := False\<rparr>)))))) = [''s1'', ''s1'']"
  by (simp add: upload_session_def add_session_def insertPending_def driver_call_def
      ex_store_def or_empty_def or_null_def ex_hex_inj)

text \<open>
  Claim C8, amended. On a healthy store in which the identifier is not pending yet, the
  first submission is accepted and the second is rejected, the store is left as the first
  submission made it, and exactly one pending record carries the identifier:
  \<^verbatim>\<open>/add-session\<close> answers 500 with the duplicate-key error of the store, provided the
  unique index of \<^verbatim>\<open>setup.js\<close> exists; \<^verbatim>\<open>/upload-session\<close> answers 400 from its own
  existence test, index or not, for session data that carries no \<^verbatim>\<open>sessionId\<close> key of
  its own. The \<^verbatim>\<open>_id\<close> of the first document is one the store does not hold yet, as the
  driver's are.
\<close>

theorem duplicate_submission_rejected:
  assumes "faults st = []" and "sid \<noteq> []" and "sid \<notin> sessionId ` set (pending st)"
    and "ObjectId nid \<notin> doc_id ` set (pending st)"
  shows "(sessionId_index st \<longrightarrow>
            fst (add_session nid \<lparr>b_sessionId = Some sid, b_phoneNumber = p\<rparr> st) = Json200 \<and>
            add_session nid' \<lparr>b_sessionId = Some sid, b_phoneNumber = p\<rparr>
                (snd (add_session nid \<lparr>b_sessionId = Some sid, b_phoneNumber = p\<rparr> st)) =
              (Err500 DuplicateKey,
               snd (add_session nid \<lparr>b_sessionId = Some sid, b_phoneNumber = p\<rparr> st)) \<and>
            length (filter (\<lambda>d. sessionId d = sid)
                      (pending (snd (add_session nid
                         \<lparr>b_sessionId = Some sid, b_phoneNumber = p\<rparr> st)))) = 1) \<and>
         (sd_sessionId sd = None \<and>
          (case sd_id sd of None \<Rightarrow> ObjectId nid | Some s \<Rightarrow> StringId s)
            \<notin> doc_id ` set (pending st) \<longrightarrow>
            fst (upload_session nid
                   \<lparr>u_sessionId = Some sid, u_phoneNumber = p, u_sessionData = Some sd\<rparr> st) =
              Json200 \<and>
            upload_session nid'
                \<lparr>u_sessionId = Some sid, u_phoneNumber = p, u_sessionData = Some sd\<rparr>
                (snd (upload_session nid
                   \<lparr>u_sessionId = Some sid, u_phoneNumber = p, u_sessionData = Some sd\<rparr> st)) =
              (Err400 ''Session ID already exists'',
               snd (upload_session nid
                   \<lparr>u_sessionId = Some sid, u_phoneNumber = p, u_sessionData = Some sd\<rparr> st)) \<and>
            length (filter (\<lambda>d. sessionId d = sid)
                      (pending (snd (upload_session nid
                         \<lparr>u_sessionId = Some sid, u_phoneNumber = p,
                          u_sessionData = Some sd\<rparr> st)))) = 1)"
proof (intro conjI impI)
  have nofilter: "filter (\<lambda>d. sessionId d = sid) (pending st) = []"
    using assms(3) by (auto simp: filter_empty_conv)
  {
    assume idx: "sessionId_index st"
    let ?doc = "\<lparr>doc_id = ObjectId nid, sessionId = sid, phoneNumber = p, hist = NoHistory,
                 me_id = None\<rparr>"
    have first: "add_session nid \<lparr>b_sessionId = Some sid, b_phoneNumber = p\<rparr> st =
        (Json200, st\<lparr>pending := pending st @ [?doc]\<rparr>)"
      using assms by (simp add: add_session_def or_empty_def insertPending_fresh)
    show "fst (add_session nid \<lparr>b_sessionId = Some sid, b_phoneNumber = p\<rparr> st) = Json200"
      by (simp add: first)
    show "add_session nid' \<lparr>b_sessionId = Some sid, b_phoneNumber = p\<rparr>
                (snd (add_session nid \<lparr>b_sessionId = Some sid, b_phoneNumber = p\<rparr> st)) =
              (Err500 DuplicateKey,
               snd (add_session nid \<lparr>b_sessionId = Some sid, b_phoneNumber = p\<rparr> st))"
      unfolding first snd_conv using assms(1,2) idx
      by (simp add: add_session_def or_empty_def insertPending_duplicate)
    show "length (filter (\<lambda>d. sessionId d = sid)
                      (pending (snd (add_session nid
                         \<lparr>b_sessionId = Some sid, b_phoneNumber = p\<rparr> st)))) = 1"
      by (simp add: first nofilter)
  }
  {
    assume sd: "sd_sessionId sd = None \<and>
          (case sd_id sd of None \<Rightarrow> ObjectId nid | Some s \<Rightarrow> StringId s)
            \<notin> doc_id ` set (pending st)"
    let ?doc = "\<lparr>doc_id = (case sd_id sd of None \<Rightarrow> ObjectId nid | Some s \<Rightarrow> StringId s),
                 sessionId = sid,
                 phoneNumber = (case sd_phoneNumber sd of None \<Rightarrow> or_null p | Some q \<Rightarrow> Some q),
                 hist = sd_hist sd, me_id = sd_me_id sd\<rparr>"
    have first: "upload_session nid
                   \<lparr>u_sessionId = Some sid, u_phoneNumber = p, u_sessionData = Some sd\<rparr> st =
        (Json200, st\<lparr>pending := pending st @ [?doc]\<rparr>)"
      using assms(1,2,3) sd
      by (simp add: upload_session_def or_empty_def insertPending_fresh driver_call_healthy
          split: option.splits)
    show "fst (upload_session nid
                   \<lparr>u_sessionId = Some sid, u_phoneNumber = p, u_sessionData = Some sd\<rparr> st) =
              Json200"
      by (simp add: first)
    show "upload_session nid'
                \<lparr>u_sessionId = Some sid, u_phoneNumber = p, u_sessionData = Some sd\<rparr>
                (snd (upload_session nid
                   \<lparr>u_sessionId = Some sid, u_phoneNumber = p, u_sessionData = Some sd\<rparr> st)) =
              (Err400 ''Session ID already exists'',
               snd (upload_session nid
                   \<lparr>u_sessionId = Some sid, u_phoneNumber = p, u_sessionData = Some sd\<rparr> st))"
      unfolding first snd_conv using assms(1,2)
      by (simp add: upload_session_def or_empty_def driver_call_healthy)
    show "length (filter (\<lambda>d. sessionId d = sid)
                      (pending (snd (upload_session nid
                         \<lparr>u_sessionId = Some sid, u_phoneNumber = p,
                          u_sessionData = Some sd\<rparr> st)))) = 1"
      by (simp add: first nofilter)
  }
qed

theorem duplicate_submission_rejected_witness:
  "add_session (ex_hex 2) \<lparr>b_sessionId = Some ''s1'', b_phoneNumber = None\<rparr>
     (snd (add_session (ex_hex 3) \<lparr>b_sessionId = Some ''s1'', b_phoneNumber = None\<rparr>
             (ex_store 0 :: string state))) =
     (Err500 DuplicateKey,
      (ex_store 0)\<lparr>pending := [\<lparr>doc_id = ObjectId (ex_hex 3), sessionId = ''s1'',
                                 phoneNumber = None, hist = NoHistory, me_id = None\<rparr>]\<rparr>) \<and>
   fst (upload_session (ex_hex 2)
          \<lparr>u_sessionId = Some ''s1'', u_phoneNumber = None,
           u_sessionData = Some \<lparr>sd_id = None, sd_sessionId = None, sd_phoneNumber = None,
                                 sd_hist = NoHistory, sd_me_id = None\<rparr>\<rparr>
          (snd (upload_session (ex_hex 3)
                  \<lparr>u_sessionId = Some ''s1'', u_phoneNumber = None,
                   u_sessionData = Some \<lparr>sd_id = None, sd_sessionId = None, sd_phoneNumber = None,
                                         sd_hist = NoHistory, sd_me_id = None\<rparr>\<rparr>
                  (ex_store 0 :: string state)))) = Err400 ''Session ID already exists''"
proof -
  have h: "faults (ex_store 0 :: string state) = []" "''s1'' \<noteq> []"
    "''s1'' \<notin> sessionId ` set (pending (ex_store 0 :: string state))"
    "ObjectId (ex_hex 3) \<notin> doc_id ` set (pending (ex_store 0 :: string state))"
    by (simp_all add: ex_store_def)
  have i: "sessionId_index (ex_store 0 :: string state)"
    by (simp add: ex_store_def)
  have first: "snd (add_session (ex_hex 3) \<lparr>b_sessionId = Some ''s1'', b_phoneNumber = None\<rparr>
                      (ex_store 0 :: string state)) =
     (ex_store 0)\<lparr>pending := [\<lparr>doc_id = ObjectId (ex_hex 3), sessionId = ''s1'',
                                 phoneNumber = None, hist = NoHistory, me_id = None\<rparr>]\<rparr>"
    by (simp add: add_session_def insertPending_def driver_call_def ex_store_def or_empty_def)
  show ?thesis
    using i h(4) duplicate_submission_rejected [OF h, where nid' = "ex_hex 2" and p = None
        and sd = "\<lparr>sd_id = None, sd_sessionId = None, sd_phoneNumber = None,
                   sd_hist = NoHistory, sd_me_id = None\<rparr>"]
    by (simp add: first)
qed

section \<open>Failures while a record is processed\<close>




end
